theory Spec2Isabelle
  imports Main
begin

section \<open>Python values used by \<^verbatim>\<open>client_factory.py\<close>\<close>

text \<open>
  Every argument and attribute of the module is either \<^verbatim>\<open>None\<close> or a \<^verbatim>\<open>str\<close>:
  \<open>None\<close> stands for Python's \<^verbatim>\<open>None\<close>, \<open>Some s\<close> for the string \<open>s\<close>. A \<^verbatim>\<open>str\<close>
  is represented by the bytes of its UTF-8 encoding, which keeps equality and concatenation.
  The process environment (after \<^verbatim>\<open>load_dotenv()\<close> has run at import time) is a
  partial map from variable names to values; a variable may be set to the empty string.
\<close>

type_synonym py_str = "string option"

type_synonym environ = "string \<rightharpoonup> string"

datatype exn = ValueError string | OtherError string

text \<open>Truth value of an object: \<^verbatim>\<open>None\<close> and \<^verbatim>\<open>""\<close> are falsy.\<close>

definition truthy :: "py_str \<Rightarrow> bool" where
  "truthy v = (case v of None \<Rightarrow> False | Some s \<Rightarrow> s \<noteq> [])"

text \<open>\<^verbatim>\<open>a or b\<close>: the left operand when it is truthy, else the right operand as it is.\<close>

definition py_or :: "py_str \<Rightarrow> py_str \<Rightarrow> py_str" where
  "py_or a b = (if truthy a then a else b)"

text \<open>\<^verbatim>\<open>os.getenv(name)\<close>: the value, or \<^verbatim>\<open>None\<close> when the variable is unset.\<close>

definition getenv :: "environ \<Rightarrow> string \<Rightarrow> py_str" where
  "getenv env name = env name"

text \<open>
  \<^verbatim>\<open>str.lower()\<close> belongs to the Python runtime, not to the module, and it is
  Unicode-aware. The two class methods below therefore take the lowercasing function as
  their first parameter, and every theorem about them holds for every such function.

  For the examples, \<open>ascii_lower\<close> is what \<^verbatim>\<open>str.lower()\<close> does on a string of ASCII
  characters: the letters A to Z are mapped to a to z, every other character is kept.
\<close>

definition ascii_lower_char :: "char \<Rightarrow> char" where
  "ascii_lower_char c =
     (let n = of_char c :: nat in if 65 \<le> n \<and> n \<le> 90 then char_of (n + 32) else c)"

definition ascii_lower :: "string \<Rightarrow> string" where
  "ascii_lower s = map ascii_lower_char s"

text \<open>\<^verbatim>\<open>sep.join(xs)\<close>.\<close>

fun join :: "string \<Rightarrow> string list \<Rightarrow> string" where
  "join sep [] = []"
| "join sep [x] = x"
| "join sep (x # y # ys) = x @ sep @ join sep (y # ys)"

text \<open>
  A \<^verbatim>\<open>dict\<close> keeps its keys in insertion order, and \<^verbatim>\<open>d[k] = v\<close> on a key already
  present keeps the key's position: an association list with distinct keys.
\<close>

fun dict_set :: "'k \<Rightarrow> 'v \<Rightarrow> ('k \<times> 'v) list \<Rightarrow> ('k \<times> 'v) list" where
  "dict_set k v [] = [(k, v)]"
| "dict_set k v ((k', v') # ps) =
     (if k' = k then (k, v) # ps else (k', v') # dict_set k v ps)"

definition keys :: "('k \<times> 'v) list \<Rightarrow> 'k list" where
  "keys d = map fst d"

definition dict_get :: "('k \<times> 'v) list \<Rightarrow> 'k \<Rightarrow> 'v option" where
  "dict_get d k = map_of d k"


section \<open>The configuration classes\<close>

text \<open>
  The attributes of an instance. All four classes have \<^verbatim>\<open>api_key\<close> and
  \<^verbatim>\<open>base_url\<close>; \<^verbatim>\<open>OpenAIClient\<close> and \<^verbatim>\<open>AzureOpenAIClient\<close> have two more each.
  The constructor arguments are written with a prime, the attributes without.
\<close>

record client_fields =
  api_key :: py_str
  base_url :: py_str

record openai_fields = client_fields +
  organization :: py_str
  project :: py_str

record azure_fields = client_fields +
  api_version :: py_str
  azure_deployment :: py_str

text \<open>\<^verbatim>\<open>OpenAIClient.__init__\<close> (lines 20 to 28).\<close>

definition OpenAIClient_init ::
  "environ \<Rightarrow> py_str \<Rightarrow> py_str \<Rightarrow> py_str \<Rightarrow> py_str \<Rightarrow> exn + openai_fields" where
  "OpenAIClient_init env api_key' base_url' organization' project' =
     (let k = py_or api_key' (getenv env ''OPENAI_API_KEY'') in
      if \<not> truthy k then
        Inl (ValueError ''API key must be set in the environment variable 'OPENAI_API_KEY'.'')
      else
        Inr \<lparr>api_key = k,
             base_url = py_or base_url' (Some ''https://api.openai.com/v1''),
             organization = py_or organization' (getenv env ''OPENAI_ORG_ID''),
             project = py_or project' (getenv env ''OPENAI_PROJECT_ID'')\<rparr>)"

text \<open>\<^verbatim>\<open>AzureOpenAIClient.__init__\<close> (lines 40 to 52): no check, no raise.\<close>

definition AzureOpenAIClient_init ::
  "environ \<Rightarrow> py_str \<Rightarrow> py_str \<Rightarrow> py_str \<Rightarrow> py_str \<Rightarrow> exn + azure_fields" where
  "AzureOpenAIClient_init env api_key' base_url' api_version' azure_deployment' =
     Inr \<lparr>api_key = py_or api_key' (getenv env ''AZURE_OPENAI_API_KEY''),
          base_url = py_or base_url' (getenv env ''AZURE_OPENAI_ENDPOINT''),
          api_version = py_or api_version' (getenv env ''OPENAI_API_VERSION''),
          azure_deployment =
            py_or azure_deployment' (getenv env ''AZURE_OPENAI_DEPLOYMENT_NAME'')\<rparr>"

text \<open>\<^verbatim>\<open>OllamaClient.__init__\<close> (lines 64 to 66).\<close>

definition OllamaClient_init :: "environ \<Rightarrow> py_str \<Rightarrow> py_str \<Rightarrow> exn + client_fields" where
  "OllamaClient_init env api_key' base_url' =
     Inr \<lparr>api_key = py_or api_key' (Some ''ollama''),
          base_url = py_or base_url' (getenv env ''OLLAMA_ENDPOINT_URL'')\<rparr>"

text \<open>\<^verbatim>\<open>HuggingFaceClient.__init__\<close> (lines 73 to 83).\<close>

definition HuggingFaceClient_init ::
  "environ \<Rightarrow> py_str \<Rightarrow> py_str \<Rightarrow> exn + client_fields" where
  "HuggingFaceClient_init env api_key' base_url' =
     (let k = py_or api_key' (getenv env ''HF_API_TOKEN'') in
      if \<not> truthy k then
        Inl (ValueError
          ''API key must be provided either as a parameter or set in the environment variable 'HF_API_TOKEN'.'')
      else
        let u = py_or base_url' (getenv env ''HF_ENDPOINT_URL'') in
        if \<not> truthy u then
          Inl (ValueError
            ''Endpoint URL must be provided either as a parameter or set in the environment variable 'HF_ENDPOINT_URL'.'')
        else Inr \<lparr>api_key = k, base_url = u\<rparr>)"


section \<open>The wrapped library, classes as values, instances\<close>

text \<open>
  The two constructors of the \<^verbatim>\<open>openai\<close> package are not part of the module: they are
  a parameter. Each takes its four keyword arguments and returns a handle of some type
  \<open>'h\<close> or raises. \<open>OpenAI\<close> takes \<^verbatim>\<open>api_key, base_url, organization, project\<close> (the last
  two default to \<^verbatim>\<open>None\<close>); \<open>AzureOpenAI\<close> takes
  \<^verbatim>\<open>api_key, azure_endpoint, api_version, azure_deployment\<close>.
\<close>

record 'h library =
  OpenAI :: "py_str \<Rightarrow> py_str \<Rightarrow> py_str \<Rightarrow> py_str \<Rightarrow> exn + 'h"
  AzureOpenAI :: "py_str \<Rightarrow> py_str \<Rightarrow> py_str \<Rightarrow> py_str \<Rightarrow> exn + 'h"

text \<open>
  A value of \<^verbatim>\<open>Type[BaseClient]\<close>: one of the four classes of the module, or a class the
  caller wrote and registered. Of the latter the model keeps the name and what
  \<^verbatim>\<open>T(api_key, base_url)\<close> does as a function of the environment and the two
  arguments: it raises, or yields an object whose \<^verbatim>\<open>create()\<close> raises or returns a
  handle. It also keeps the truth value of the class object itself, which line 116 tests:
  \<open>True\<close> for an ordinary class, \<open>False\<close> only for a class whose metaclass overrides
  \<^verbatim>\<open>__bool__\<close> or \<^verbatim>\<open>__len__\<close> to make it falsy. The four classes of the module are
  ordinary classes.
\<close>

datatype 'h client_class =
    OpenAIClient
  | AzureOpenAIClient
  | OllamaClient
  | HuggingFaceClient
  | UserClass string bool "environ \<Rightarrow> py_str \<Rightarrow> py_str \<Rightarrow> exn + (exn + 'h)"

fun class_truthy :: "'h client_class \<Rightarrow> bool" where
  "class_truthy (UserClass n b init) = b"
| "class_truthy client_class = True"

datatype 'h client_obj =
    OpenAIClient_obj openai_fields
  | AzureOpenAIClient_obj azure_fields
  | OllamaClient_obj client_fields
  | HuggingFaceClient_obj client_fields
  | UserClass_obj string "exn + 'h"

text \<open>
  \<^verbatim>\<open>client_class(api_key, base_url)\<close>: the call passes two positional arguments, so
  the remaining parameters of \<^verbatim>\<open>OpenAIClient\<close> and \<^verbatim>\<open>AzureOpenAIClient\<close> take their
  default \<^verbatim>\<open>None\<close>.
\<close>

fun new :: "environ \<Rightarrow> 'h client_class \<Rightarrow> py_str \<Rightarrow> py_str \<Rightarrow> exn + 'h client_obj" where
  "new env OpenAIClient k u =
     (case OpenAIClient_init env k u None None of
        Inl e \<Rightarrow> Inl e | Inr self \<Rightarrow> Inr (OpenAIClient_obj self))"
| "new env AzureOpenAIClient k u =
     (case AzureOpenAIClient_init env k u None None of
        Inl e \<Rightarrow> Inl e | Inr self \<Rightarrow> Inr (AzureOpenAIClient_obj self))"
| "new env OllamaClient k u =
     (case OllamaClient_init env k u of
        Inl e \<Rightarrow> Inl e | Inr self \<Rightarrow> Inr (OllamaClient_obj self))"
| "new env HuggingFaceClient k u =
     (case HuggingFaceClient_init env k u of
        Inl e \<Rightarrow> Inl e | Inr self \<Rightarrow> Inr (HuggingFaceClient_obj self))"
| "new env (UserClass n b init) k u =
     (case init env k u of
        Inl e \<Rightarrow> Inl e | Inr r \<Rightarrow> Inr (UserClass_obj n r))"

text \<open>The \<^verbatim>\<open>create\<close> methods (lines 30, 54, 68, 85).\<close>

fun create :: "'h library \<Rightarrow> 'h client_obj \<Rightarrow> exn + 'h" where
  "create lib (OpenAIClient_obj self) =
     OpenAI lib (api_key self) (base_url self) (organization self) (project self)"
| "create lib (AzureOpenAIClient_obj self) =
     AzureOpenAI lib (api_key self) (base_url self) (api_version self) (azure_deployment self)"
| "create lib (OllamaClient_obj self) =
     OpenAI lib (api_key self) (base_url self) None None"
| "create lib (HuggingFaceClient_obj self) =
     OpenAI lib (api_key self) (base_url self) None None"
| "create lib (UserClass_obj n r) = r"


section \<open>\<^verbatim>\<open>ClientFactory\<close>\<close>

text \<open>
  The state of the class: the dictionary \<^verbatim>\<open>_clients\<close>, and, as instrumentation, the
  list of calls the factory has made so far: each instantiation of a looked-up class and
  each call of \<^verbatim>\<open>create()\<close> on the new object. The code never reads the list.
\<close>

datatype 'h event =
    Instantiate "'h client_class" py_str py_str
  | Create "'h client_obj"

record 'h ClientFactory =
  clients :: "(string \<times> 'h client_class) list"
  trace :: "'h event list"

definition initial :: "'h ClientFactory" where
  "initial =
     \<lparr>clients = [(''openai'', OpenAIClient),
                 (''azure'', AzureOpenAIClient),
                 (''ollama'', OllamaClient),
                 (''huggingface'', HuggingFaceClient)],
      trace = []\<rparr>"

text \<open>The message of line 118.\<close>

definition unknown_message :: "string \<Rightarrow> string list \<Rightarrow> string" where
  "unknown_message client_name names =
     ''Unknown client name: '' @ client_name @ ''. Valid options are ''
       @ join '', '' names @ ''.''"

text \<open>Line 120, \<^verbatim>\<open>client_class(api_key, base_url).create()\<close>.\<close>

definition instantiate_and_create ::
  "'h library \<Rightarrow> environ \<Rightarrow> 'h client_class \<Rightarrow> py_str \<Rightarrow> py_str \<Rightarrow> 'h ClientFactory
     \<Rightarrow> (exn + 'h) \<times> 'h ClientFactory" where
  "instantiate_and_create lib env client_class api_key' base_url' s =
     (let s1 = s\<lparr>trace := trace s @ [Instantiate client_class api_key' base_url']\<rparr> in
      case new env client_class api_key' base_url' of
        Inl e \<Rightarrow> (Inl e, s1)
      | Inr obj \<Rightarrow> (create lib obj, s1\<lparr>trace := trace s1 @ [Create obj]\<rparr>))"

text \<open>
  \<^verbatim>\<open>ClientFactory.create_client\<close> (lines 97 to 120). \<^verbatim>\<open>dict.get\<close> gives
  \<^verbatim>\<open>None\<close> for a missing key, and \<^verbatim>\<open>if not client_class\<close> holds for \<^verbatim>\<open>None\<close>
  and for a class object that is falsy.
\<close>

definition create_client ::
  "(string \<Rightarrow> string) \<Rightarrow> 'h library \<Rightarrow> environ \<Rightarrow> string \<Rightarrow> py_str \<Rightarrow> py_str
     \<Rightarrow> 'h ClientFactory \<Rightarrow> (exn + 'h) \<times> 'h ClientFactory" where
  "create_client str_lower lib env client_name api_key' base_url' s =
     (case dict_get (clients s) (str_lower client_name) of
        None \<Rightarrow> (Inl (ValueError (unknown_message client_name (keys (clients s)))), s)
      | Some client_class \<Rightarrow>
          if \<not> class_truthy client_class then
            (Inl (ValueError (unknown_message client_name (keys (clients s)))), s)
          else instantiate_and_create lib env client_class api_key' base_url' s)"

text \<open>\<^verbatim>\<open>ClientFactory.register_client\<close> (lines 122 to 124); it returns \<^verbatim>\<open>None\<close>.\<close>

definition register_client ::
  "(string \<Rightarrow> string) \<Rightarrow> string \<Rightarrow> 'h client_class \<Rightarrow> 'h ClientFactory
     \<Rightarrow> unit \<times> 'h ClientFactory" where
  "register_client str_lower name client_class s =
     ((), s\<lparr>clients := dict_set (str_lower name) client_class (clients s)\<rparr>)"


section \<open>Sequences of calls on the factory\<close>






section \<open>The specification's resolution rule\<close>

text \<open>
  The specification's words for a field with an environment fallback: the explicit
  argument if supplied, else the environment variable, else a missing value. An argument
  counts as supplied when it is a string with at least one character.
\<close>

definition explicit_else_env :: "py_str \<Rightarrow> py_str \<Rightarrow> py_str" where
  "explicit_else_env explicit from_env =
     (case explicit of
        Some (c # cs) \<Rightarrow> Some (c # cs)
      | _ \<Rightarrow> (case from_env of Some v \<Rightarrow> Some v | None \<Rightarrow> None))"


section \<open>Sample library and sample registered classes\<close>

text \<open>
  A library whose two constructors always return a handle (here a string that names the
  constructor), and two caller-written classes whose construction and \<^verbatim>\<open>create()\<close>
  always succeed: an ordinary class, and one whose metaclass makes the class object falsy.
  They are the concrete inputs of the examples below.
\<close>

definition stub_library :: "string library" where
  "stub_library =
     \<lparr>OpenAI = (\<lambda>k u org proj. Inr ''OpenAI handle''),
      AzureOpenAI = (\<lambda>k u v d. Inr ''AzureOpenAI handle'')\<rparr>"

definition MockClient :: "string client_class" where
  "MockClient = UserClass ''MockClient'' True (\<lambda>env k u. Inr (Inr ''mock handle''))"



section \<open>Truthiness and \<^verbatim>\<open>or\<close>\<close>

lemma truthy_iff: "truthy v \<longleftrightarrow> (\<exists>s. v = Some s \<and> s \<noteq> [])"
  by (cases v) (simp_all add: truthy_def)

lemma truthy_py_or: "truthy (py_or a b) \<longleftrightarrow> truthy a \<or> truthy b"
  by (simp add: py_or_def)

lemma truthy_supplied:
  "truthy (py_or a (getenv env name)) \<longleftrightarrow>
     (\<exists>v. v \<noteq> [] \<and> (a = Some v \<or> env name = Some v))"
  unfolding truthy_py_or by (auto simp: truthy_iff getenv_def)

lemma py_or_explicit_else_env: "py_or a (getenv env name) = explicit_else_env a (env name)"
  by (auto simp: py_or_def truthy_def getenv_def explicit_else_env_def
      split: option.splits list.splits)


lemma py_or_eq_empty: "py_or a b = Some [] \<longleftrightarrow> \<not> truthy a \<and> b = Some []"
  by (auto simp: py_or_def truthy_def)

lemma truthy_not_empty: "truthy v \<Longrightarrow> v \<noteq> Some []"
  by (auto simp: truthy_def)


section \<open>The dictionary and the two class methods\<close>

lemma ascii_lower_char_idem: "ascii_lower_char (ascii_lower_char c) = ascii_lower_char c"
  unfolding ascii_lower_char_def Let_def by auto

lemma ascii_lower_idem: "ascii_lower (ascii_lower s) = ascii_lower s"
  by (simp add: ascii_lower_def ascii_lower_char_idem)


lemma keys_dict_set:
  "keys (dict_set k v d) = (if k \<in> set (keys d) then keys d else keys d @ [k])"
  by (induction d) (force simp: keys_def)+

lemma dict_get_None_iff: "dict_get d k = None \<longleftrightarrow> k \<notin> set (keys d)"
  by (simp add: dict_get_def keys_def map_of_eq_None_iff)

lemma registered_names: "set (keys d) = {k. dict_get d k \<noteq> None}"
  using dict_get_None_iff [of d] by auto

lemma clients_create_client:
  "clients (snd (create_client lower lib env client_name k u s)) = clients s"
  by (simp add: create_client_def instantiate_and_create_def Let_def
      split: option.splits sum.splits)

lemma create_client_absent:
  "dict_get (clients s) (lower client_name) = None \<Longrightarrow>
   create_client lower lib env client_name k u s =
     (Inl (ValueError (unknown_message client_name (keys (clients s)))), s)"
  by (simp add: create_client_def)

lemma create_client_falsy:
  "dict_get (clients s) (lower client_name) = Some T \<Longrightarrow> \<not> class_truthy T \<Longrightarrow>
   create_client lower lib env client_name k u s =
     (Inl (ValueError (unknown_message client_name (keys (clients s)))), s)"
  by (simp add: create_client_def)

lemma create_client_present:
  "dict_get (clients s) (lower client_name) = Some T \<Longrightarrow> class_truthy T \<Longrightarrow>
   create_client lower lib env client_name k u s = instantiate_and_create lib env T k u s"
  by (simp add: create_client_def)

lemma clients_register_client:
  "clients (snd (register_client lower name T s)) = dict_set (lower name) T (clients s)"
  by (simp add: register_client_def)




section \<open>Evaluation on the sample inputs\<close>

lemma lower_examples:
  "ascii_lower ''Gemini'' = ''gemini''" "ascii_lower ''gemini'' = ''gemini''"
  "ascii_lower ''OpenAI'' = ''openai''" "ascii_lower ''OPENAI'' = ''openai''"
  "ascii_lower ''openai'' = ''openai''" "ascii_lower ''Mistral'' = ''mistral''"
  "ascii_lower ''ollama'' = ''ollama''" "ascii_lower ''Falsy'' = ''falsy''"
  "ascii_lower ''falsy'' = ''falsy''"
  by code_simp+

lemma keys_initial:
  "keys (clients (initial :: 'h ClientFactory)) = [''openai'', ''azure'', ''ollama'', ''huggingface'']"
  by (simp add: initial_def keys_def)

lemma dict_get_initial:
  "dict_get (clients (initial :: 'h ClientFactory)) ''openai'' = Some OpenAIClient"
  "dict_get (clients (initial :: 'h ClientFactory)) ''gemini'' = None"
  by (simp_all add: initial_def dict_get_def)

lemma join_examples:
  "join '', '' [''openai'', ''azure'', ''ollama'', ''huggingface''] =
     ''openai, azure, ollama, huggingface''"
  "join '', '' [''openai'', ''azure'', ''ollama'', ''huggingface'', ''mistral''] =
     ''openai, azure, ollama, huggingface, mistral''"
  "join '', '' [''openai'', ''azure'', ''ollama'', ''huggingface'', ''falsy''] =
     ''openai, azure, ollama, huggingface, falsy''"
  by simp_all


section \<open>Construction of the four variants\<close>

text \<open>
  Claim C2. \<^verbatim>\<open>OpenAIClient\<close>: when neither the explicit credential nor the variable
  \<^verbatim>\<open>OPENAI_API_KEY\<close> holds a non-empty value, construction raises the \<^verbatim>\<open>ValueError\<close>
  that names \<^verbatim>\<open>OPENAI_API_KEY\<close>; when either of them holds a non-empty value,
  construction succeeds, whatever the endpoint argument is.
\<close>

theorem OpenAIClient_init_credential:
  "((\<forall>v. api_key' = Some v \<longrightarrow> v = []) \<and> (\<forall>v. env ''OPENAI_API_KEY'' = Some v \<longrightarrow> v = [])
      \<longrightarrow> OpenAIClient_init env api_key' base_url' organization' project' =
            Inl (ValueError ''API key must be set in the environment variable 'OPENAI_API_KEY'.''))
   \<and> ((\<exists>v. v \<noteq> [] \<and> (api_key' = Some v \<or> env ''OPENAI_API_KEY'' = Some v))
      \<longrightarrow> (\<exists>self. OpenAIClient_init env api_key' base_url' organization' project' = Inr self))"
proof -
  have ok: "truthy (py_or api_key' (getenv env ''OPENAI_API_KEY'')) \<longleftrightarrow>
      (\<exists>v. v \<noteq> [] \<and> (api_key' = Some v \<or> env ''OPENAI_API_KEY'' = Some v))"
    unfolding truthy_py_or by (auto simp: truthy_iff getenv_def)
  show ?thesis
    unfolding OpenAIClient_init_def Let_def ok by auto
qed

theorem OpenAIClient_init_credential_witness:
  "OpenAIClient_init Map.empty None None None None =
     Inl (ValueError ''API key must be set in the environment variable 'OPENAI_API_KEY'.'')
   \<and> (\<exists>self. OpenAIClient_init Map.empty (Some ''sk-1'') None None None = Inr self)
   \<and> (\<exists>self. OpenAIClient_init [''OPENAI_API_KEY'' \<mapsto> ''sk-2''] None None None None = Inr self)"
  using OpenAIClient_init_credential [of None Map.empty None None None]
    OpenAIClient_init_credential [of "Some ''sk-1''" Map.empty None None None]
    OpenAIClient_init_credential [of None "[''OPENAI_API_KEY'' \<mapsto> ''sk-2'']" None None None]
  by simp

text \<open>
  Claim C3. \<^verbatim>\<open>HuggingFaceClient\<close>: construction raises when no non-empty credential
  comes from the argument or \<^verbatim>\<open>HF_API_TOKEN\<close>, and raises when no non-empty endpoint
  comes from the argument or \<^verbatim>\<open>HF_ENDPOINT_URL\<close> (with the endpoint's message when the
  credential is there); it succeeds whenever both are supplied, by any combination of
  argument and environment.
\<close>

theorem HuggingFaceClient_init_required:
  "((\<forall>v. api_key' = Some v \<longrightarrow> v = []) \<and> (\<forall>v. env ''HF_API_TOKEN'' = Some v \<longrightarrow> v = [])
      \<longrightarrow> HuggingFaceClient_init env api_key' base_url' =
            Inl (ValueError
              ''API key must be provided either as a parameter or set in the environment variable 'HF_API_TOKEN'.''))
   \<and> ((\<forall>v. base_url' = Some v \<longrightarrow> v = []) \<and> (\<forall>v. env ''HF_ENDPOINT_URL'' = Some v \<longrightarrow> v = [])
      \<longrightarrow> (\<exists>msg. HuggingFaceClient_init env api_key' base_url' = Inl (ValueError msg)))
   \<and> ((\<exists>v. v \<noteq> [] \<and> (api_key' = Some v \<or> env ''HF_API_TOKEN'' = Some v))
       \<and> (\<forall>v. base_url' = Some v \<longrightarrow> v = []) \<and> (\<forall>v. env ''HF_ENDPOINT_URL'' = Some v \<longrightarrow> v = [])
      \<longrightarrow> HuggingFaceClient_init env api_key' base_url' =
            Inl (ValueError
              ''Endpoint URL must be provided either as a parameter or set in the environment variable 'HF_ENDPOINT_URL'.''))
   \<and> ((\<exists>v. v \<noteq> [] \<and> (api_key' = Some v \<or> env ''HF_API_TOKEN'' = Some v))
       \<and> (\<exists>v. v \<noteq> [] \<and> (base_url' = Some v \<or> env ''HF_ENDPOINT_URL'' = Some v))
      \<longrightarrow> (\<exists>self. HuggingFaceClient_init env api_key' base_url' = Inr self))"
proof -
  let ?k = "py_or api_key' (getenv env ''HF_API_TOKEN'')"
  let ?u = "py_or base_url' (getenv env ''HF_ENDPOINT_URL'')"
  have init: "HuggingFaceClient_init env api_key' base_url' =
      (if \<not> truthy ?k then
         Inl (ValueError
           ''API key must be provided either as a parameter or set in the environment variable 'HF_API_TOKEN'.'')
       else if \<not> truthy ?u then
         Inl (ValueError
           ''Endpoint URL must be provided either as a parameter or set in the environment variable 'HF_ENDPOINT_URL'.'')
       else Inr \<lparr>api_key = ?k, base_url = ?u\<rparr>)"
    by (simp add: HuggingFaceClient_init_def Let_def)
  show ?thesis
    unfolding init
    using truthy_supplied [of api_key' env "''HF_API_TOKEN''"]
      truthy_supplied [of base_url' env "''HF_ENDPOINT_URL''"]
    by auto
qed

theorem HuggingFaceClient_init_required_witness:
  "HuggingFaceClient_init Map.empty None (Some ''http://h'') =
     Inl (ValueError
       ''API key must be provided either as a parameter or set in the environment variable 'HF_API_TOKEN'.'')
   \<and> (\<exists>msg. HuggingFaceClient_init Map.empty None None = Inl (ValueError msg))
   \<and> HuggingFaceClient_init [''HF_API_TOKEN'' \<mapsto> ''hf_1''] None None =
       Inl (ValueError
         ''Endpoint URL must be provided either as a parameter or set in the environment variable 'HF_ENDPOINT_URL'.'')
   \<and> (\<exists>self. HuggingFaceClient_init [''HF_API_TOKEN'' \<mapsto> ''hf_1''] None (Some ''http://h'') = Inr self)"
  using HuggingFaceClient_init_required [of None Map.empty "Some ''http://h''"]
    HuggingFaceClient_init_required [of None Map.empty None]
    HuggingFaceClient_init_required [of None "[''HF_API_TOKEN'' \<mapsto> ''hf_1'']" None]
    HuggingFaceClient_init_required [of None "[''HF_API_TOKEN'' \<mapsto> ''hf_1'']" "Some ''http://h''"]
  by simp

text \<open>
  Claim C4. \<^verbatim>\<open>OllamaClient\<close>: construction never raises; with no explicit credential
  the credential is the string \<^verbatim>\<open>ollama\<close> whatever the environment holds, and for any
  arguments the credential is the same under any two environments.
\<close>

theorem OllamaClient_init_never_fails:
  "(\<exists>self. OllamaClient_init env api_key' base_url' = Inr self)
   \<and> (\<exists>self. OllamaClient_init env None base_url' = Inr self \<and> api_key self = Some ''ollama'')
   \<and> (\<exists>self self'. OllamaClient_init env api_key' base_url' = Inr self
          \<and> OllamaClient_init env' api_key' base_url' = Inr self'
          \<and> api_key self = api_key self')"
  by (simp add: OllamaClient_init_def py_or_def truthy_def)

theorem OllamaClient_init_never_fails_witness:
  "OllamaClient_init [''OLLAMA_ENDPOINT_URL'' \<mapsto> ''http://localhost:11434/v1''] None None =
     Inr \<lparr>api_key = Some ''ollama'', base_url = Some ''http://localhost:11434/v1''\<rparr>
   \<and> OllamaClient_init Map.empty None None = Inr \<lparr>api_key = Some ''ollama'', base_url = None\<rparr>"
  using OllamaClient_init_never_fails
    [of "[''OLLAMA_ENDPOINT_URL'' \<mapsto> ''http://localhost:11434/v1'']" None None Map.empty]
  by (simp add: OllamaClient_init_def py_or_def truthy_def getenv_def)

text \<open>
  Claim C5. \<^verbatim>\<open>AzureOpenAIClient\<close>: construction never raises, for every combination
  of arguments and environment; each of the four attributes is the explicit argument if
  supplied, else the value of its environment variable, else \<^verbatim>\<open>None\<close>.
\<close>

theorem AzureOpenAIClient_init_never_fails:
  "\<exists>self. AzureOpenAIClient_init env api_key' base_url' api_version' azure_deployment' = Inr self
     \<and> api_key self = explicit_else_env api_key' (env ''AZURE_OPENAI_API_KEY'')
     \<and> base_url self = explicit_else_env base_url' (env ''AZURE_OPENAI_ENDPOINT'')
     \<and> api_version self = explicit_else_env api_version' (env ''OPENAI_API_VERSION'')
     \<and> azure_deployment self = explicit_else_env azure_deployment' (env ''AZURE_OPENAI_DEPLOYMENT_NAME'')"
  by (simp add: AzureOpenAIClient_init_def py_or_explicit_else_env)

theorem AzureOpenAIClient_init_never_fails_witness:
  "AzureOpenAIClient_init Map.empty None None None None =
     Inr \<lparr>api_key = None, base_url = None, api_version = None, azure_deployment = None\<rparr>
   \<and> AzureOpenAIClient_init [''AZURE_OPENAI_API_KEY'' \<mapsto> ''k1''] None (Some ''https://r'') None None =
     Inr \<lparr>api_key = Some ''k1'', base_url = Some ''https://r'', api_version = None,
          azure_deployment = None\<rparr>"
  using AzureOpenAIClient_init_never_fails [of Map.empty None None None None]
    AzureOpenAIClient_init_never_fails
      [of "[''AZURE_OPENAI_API_KEY'' \<mapsto> ''k1'']" None "Some ''https://r''" None None]
  by (auto simp: explicit_else_env_def)


text \<open>
  Claim C8. Whenever construction succeeds for a variant that mandates a field, the field
  of the new object is a non-empty string, also when the caller passed an empty string:
  the credential of \<^verbatim>\<open>OpenAIClient\<close>, the credential and the endpoint of
  \<^verbatim>\<open>HuggingFaceClient\<close>. When the constructor of the class that
  \<^verbatim>\<open>create_client\<close> dispatches to raises, \<^verbatim>\<open>create_client\<close> raises the same
  exception after the instantiation and without any call of \<^verbatim>\<open>create()\<close>: no handle
  is built, whatever the library and the lowercasing function are.
\<close>

theorem required_fields_nonempty:
  "(OpenAIClient_init env k u org proj = Inr self \<longrightarrow> (\<exists>v. api_key self = Some v \<and> v \<noteq> []))
   \<and> (HuggingFaceClient_init env k u = Inr self' \<longrightarrow>
        (\<exists>v w. api_key self' = Some v \<and> v \<noteq> [] \<and> base_url self' = Some w \<and> w \<noteq> []))
   \<and> (dict_get (clients s) (lower client_name) = Some T \<and> class_truthy T
        \<and> new env T k u = Inl e \<longrightarrow>
        create_client lower lib env client_name k u s =
          (Inl e, s\<lparr>trace := trace s @ [Instantiate T k u]\<rparr>))"
proof -
  have a: "\<exists>v. api_key self = Some v \<and> v \<noteq> []"
    if "OpenAIClient_init env k u org proj = Inr self"
    using that by (auto simp: OpenAIClient_init_def Let_def truthy_iff split: if_splits)
  have b: "\<exists>v w. api_key self' = Some v \<and> v \<noteq> [] \<and> base_url self' = Some w \<and> w \<noteq> []"
    if "HuggingFaceClient_init env k u = Inr self'"
    using that by (auto simp: HuggingFaceClient_init_def Let_def truthy_iff split: if_splits)
  have c: "create_client lower lib env client_name k u s =
      (Inl e, s\<lparr>trace := trace s @ [Instantiate T k u]\<rparr>)"
    if "dict_get (clients s) (lower client_name) = Some T" and "class_truthy T"
      and "new env T k u = Inl e"
    using that by (simp add: create_client_present instantiate_and_create_def)
  from a b c show ?thesis by blast
qed

theorem required_fields_nonempty_witness:
  "(\<exists>self. OpenAIClient_init [''OPENAI_API_KEY'' \<mapsto> ''sk-2''] (Some '''') None None None = Inr self
      \<and> (\<exists>v. api_key self = Some v \<and> v \<noteq> []))
   \<and> (\<exists>self. HuggingFaceClient_init [''HF_API_TOKEN'' \<mapsto> ''hf_1''] (Some '''') (Some ''http://h'') = Inr self
      \<and> (\<exists>v w. api_key self = Some v \<and> v \<noteq> [] \<and> base_url self = Some w \<and> w \<noteq> []))
   \<and> create_client ascii_lower stub_library Map.empty ''OpenAI'' (Some '''') None initial =
       (Inl (ValueError ''API key must be set in the environment variable 'OPENAI_API_KEY'.''),
        initial\<lparr>trace := [Instantiate OpenAIClient (Some '''') None]\<rparr>)"
proof -
  let ?a = "\<lparr>api_key = Some ''sk-2'', base_url = Some ''https://api.openai.com/v1'',
            organization = None, project = None\<rparr>"
  let ?b = "\<lparr>api_key = Some ''hf_1'', base_url = Some ''http://h''\<rparr>"
  have a: "OpenAIClient_init [''OPENAI_API_KEY'' \<mapsto> ''sk-2''] (Some '''') None None None = Inr ?a"
    by (simp add: OpenAIClient_init_def Let_def py_or_def truthy_def getenv_def)
  have b: "HuggingFaceClient_init [''HF_API_TOKEN'' \<mapsto> ''hf_1''] (Some '''') (Some ''http://h'') = Inr ?b"
    by (simp add: HuggingFaceClient_init_def Let_def py_or_def truthy_def getenv_def)
  have c: "dict_get (clients (initial :: string ClientFactory)) (ascii_lower ''OpenAI'') =
        Some OpenAIClient
      \<and> class_truthy (OpenAIClient :: string client_class)
      \<and> new Map.empty (OpenAIClient :: string client_class) (Some '''') None =
          Inl (ValueError ''API key must be set in the environment variable 'OPENAI_API_KEY'.'')"
    by (simp add: lower_examples dict_get_initial OpenAIClient_init_def Let_def py_or_def
        truthy_def getenv_def)
  have t: "trace (initial :: string ClientFactory) = []"
    by (simp add: initial_def)
  show ?thesis
    using a b c t
      required_fields_nonempty [where env = "[''OPENAI_API_KEY'' \<mapsto> ''sk-2'']"
        and k = "Some ''''" and u = None and org = None and proj = None and self = ?a]
      required_fields_nonempty [where env = "[''HF_API_TOKEN'' \<mapsto> ''hf_1'']"
        and k = "Some ''''" and u = "Some ''http://h''" and self' = ?b]
      required_fields_nonempty [where env = Map.empty and k = "Some ''''" and u = None
        and s = "initial :: string ClientFactory" and client_name = "''OpenAI''"
        and T = OpenAIClient and lib = stub_library and lower = ascii_lower
        and e = "ValueError ''API key must be set in the environment variable 'OPENAI_API_KEY'.''"]
    by simp
qed

text \<open>
  Claim C10, as stated, fails: for \<^verbatim>\<open>AzureOpenAIClient\<close> with the variable
  \<^verbatim>\<open>AZURE_OPENAI_API_KEY\<close> set to the empty string, an explicit empty credential
  leaves the empty string as the stored credential.
\<close>

theorem empty_argument_counterexample:
  "AzureOpenAIClient_init [''AZURE_OPENAI_API_KEY'' \<mapsto> ''''] (Some '''') None None None =
     Inr \<lparr>api_key = Some '''', base_url = None, api_version = None, azure_deployment = None\<rparr>"
  by (simp add: AzureOpenAIClient_init_def py_or_def truthy_def getenv_def)

text \<open>
  Claim C10, amended. For every variant, an explicit empty string as credential or as
  endpoint gives the same result as the omitted argument. The stored credential and
  endpoint of \<^verbatim>\<open>OpenAIClient\<close> and \<^verbatim>\<open>HuggingFaceClient\<close>, and the stored
  credential of \<^verbatim>\<open>OllamaClient\<close>, are never the empty string. The endpoint of
  \<^verbatim>\<open>OllamaClient\<close> and the credential and endpoint of \<^verbatim>\<open>AzureOpenAIClient\<close> are
  the empty string exactly when the argument is empty or omitted and the fallback
  environment variable is itself set to the empty string.
\<close>

theorem empty_argument_as_omitted:
  "OpenAIClient_init env (Some '''') u org proj = OpenAIClient_init env None u org proj
   \<and> OpenAIClient_init env k (Some '''') org proj = OpenAIClient_init env k None org proj
   \<and> AzureOpenAIClient_init env (Some '''') u ver dep = AzureOpenAIClient_init env None u ver dep
   \<and> AzureOpenAIClient_init env k (Some '''') ver dep = AzureOpenAIClient_init env k None ver dep
   \<and> OllamaClient_init env (Some '''') u = OllamaClient_init env None u
   \<and> OllamaClient_init env k (Some '''') = OllamaClient_init env k None
   \<and> HuggingFaceClient_init env (Some '''') u = HuggingFaceClient_init env None u
   \<and> HuggingFaceClient_init env k (Some '''') = HuggingFaceClient_init env k None
   \<and> (OpenAIClient_init env k u org proj = Inr a \<longrightarrow>
        api_key a \<noteq> Some '''' \<and> base_url a \<noteq> Some '''')
   \<and> (HuggingFaceClient_init env k u = Inr b \<longrightarrow>
        api_key b \<noteq> Some '''' \<and> base_url b \<noteq> Some '''')
   \<and> (OllamaClient_init env k u = Inr c \<longrightarrow>
        api_key c \<noteq> Some ''''
        \<and> (base_url c = Some '''' \<longleftrightarrow> \<not> truthy u \<and> env ''OLLAMA_ENDPOINT_URL'' = Some ''''))
   \<and> (AzureOpenAIClient_init env k u ver dep = Inr d \<longrightarrow>
        (api_key d = Some '''' \<longleftrightarrow> \<not> truthy k \<and> env ''AZURE_OPENAI_API_KEY'' = Some '''')
        \<and> (base_url d = Some '''' \<longleftrightarrow> \<not> truthy u \<and> env ''AZURE_OPENAI_ENDPOINT'' = Some ''''))"
proof -
  have 1: "OpenAIClient_init env k u org proj = Inr a \<Longrightarrow>
      api_key a \<noteq> Some '''' \<and> base_url a \<noteq> Some ''''"
    using truthy_not_empty [of "py_or k (getenv env ''OPENAI_API_KEY'')"]
    by (auto simp: OpenAIClient_init_def Let_def py_or_eq_empty split: if_splits)
  have 2: "HuggingFaceClient_init env k u = Inr b \<Longrightarrow>
      api_key b \<noteq> Some '''' \<and> base_url b \<noteq> Some ''''"
    using truthy_not_empty [of "py_or k (getenv env ''HF_API_TOKEN'')"]
      truthy_not_empty [of "py_or u (getenv env ''HF_ENDPOINT_URL'')"]
    by (auto simp: HuggingFaceClient_init_def Let_def split: if_splits)
  have 3: "OllamaClient_init env k u = Inr c \<Longrightarrow>
      api_key c \<noteq> Some ''''
      \<and> (base_url c = Some '''' \<longleftrightarrow> \<not> truthy u \<and> env ''OLLAMA_ENDPOINT_URL'' = Some '''')"
    by (auto simp: OllamaClient_init_def py_or_eq_empty getenv_def)
  have 4: "AzureOpenAIClient_init env k u ver dep = Inr d \<Longrightarrow>
      (api_key d = Some '''' \<longleftrightarrow> \<not> truthy k \<and> env ''AZURE_OPENAI_API_KEY'' = Some '''')
      \<and> (base_url d = Some '''' \<longleftrightarrow> \<not> truthy u \<and> env ''AZURE_OPENAI_ENDPOINT'' = Some '''')"
    by (auto simp: AzureOpenAIClient_init_def py_or_eq_empty getenv_def)
  have 5: "OpenAIClient_init env (Some '''') u org proj = OpenAIClient_init env None u org proj"
    "OpenAIClient_init env k (Some '''') org proj = OpenAIClient_init env k None org proj"
    by (simp_all add: OpenAIClient_init_def Let_def py_or_def truthy_def)
  have 6: "AzureOpenAIClient_init env (Some '''') u ver dep = AzureOpenAIClient_init env None u ver dep"
    "AzureOpenAIClient_init env k (Some '''') ver dep = AzureOpenAIClient_init env k None ver dep"
    by (simp_all add: AzureOpenAIClient_init_def Let_def py_or_def truthy_def)
  have 7: "OllamaClient_init env (Some '''') u = OllamaClient_init env None u"
    "OllamaClient_init env k (Some '''') = OllamaClient_init env k None"
    by (simp_all add: OllamaClient_init_def Let_def py_or_def truthy_def)
  have 8: "HuggingFaceClient_init env (Some '''') u = HuggingFaceClient_init env None u"
    "HuggingFaceClient_init env k (Some '''') = HuggingFaceClient_init env k None"
    by (simp_all add: HuggingFaceClient_init_def Let_def py_or_def truthy_def)
  from 1 2 3 4 5 6 7 8 show ?thesis by blast
qed

theorem empty_argument_as_omitted_witness:
  "OpenAIClient_init
       [''OPENAI_API_KEY'' \<mapsto> ''sk-2'', ''HF_API_TOKEN'' \<mapsto> ''hf_1'',
        ''HF_ENDPOINT_URL'' \<mapsto> ''http://h'', ''AZURE_OPENAI_ENDPOINT'' \<mapsto> '''']
       (Some '''') None None None =
     OpenAIClient_init
       [''OPENAI_API_KEY'' \<mapsto> ''sk-2'', ''HF_API_TOKEN'' \<mapsto> ''hf_1'',
        ''HF_ENDPOINT_URL'' \<mapsto> ''http://h'', ''AZURE_OPENAI_ENDPOINT'' \<mapsto> '''']
       None None None None
   \<and> (\<exists>a. OpenAIClient_init
       [''OPENAI_API_KEY'' \<mapsto> ''sk-2'', ''HF_API_TOKEN'' \<mapsto> ''hf_1'',
        ''HF_ENDPOINT_URL'' \<mapsto> ''http://h'', ''AZURE_OPENAI_ENDPOINT'' \<mapsto> '''']
       (Some '''') None None None = Inr a
        \<and> api_key a \<noteq> Some '''' \<and> base_url a \<noteq> Some '''')
   \<and> (\<exists>b. HuggingFaceClient_init
       [''OPENAI_API_KEY'' \<mapsto> ''sk-2'', ''HF_API_TOKEN'' \<mapsto> ''hf_1'',
        ''HF_ENDPOINT_URL'' \<mapsto> ''http://h'', ''AZURE_OPENAI_ENDPOINT'' \<mapsto> '''']
       (Some '''') None = Inr b
        \<and> api_key b \<noteq> Some '''' \<and> base_url b \<noteq> Some '''')
   \<and> (\<exists>c. OllamaClient_init
       [''OPENAI_API_KEY'' \<mapsto> ''sk-2'', ''HF_API_TOKEN'' \<mapsto> ''hf_1'',
        ''HF_ENDPOINT_URL'' \<mapsto> ''http://h'', ''AZURE_OPENAI_ENDPOINT'' \<mapsto> '''']
       (Some '''') None = Inr c
        \<and> api_key c \<noteq> Some '''' \<and> base_url c \<noteq> Some '''')
   \<and> (\<exists>d. AzureOpenAIClient_init
       [''OPENAI_API_KEY'' \<mapsto> ''sk-2'', ''HF_API_TOKEN'' \<mapsto> ''hf_1'',
        ''HF_ENDPOINT_URL'' \<mapsto> ''http://h'', ''AZURE_OPENAI_ENDPOINT'' \<mapsto> '''']
       (Some '''') None None None = Inr d
        \<and> api_key d \<noteq> Some '''' \<and> base_url d = Some '''')"
proof -
  let ?env = "[''OPENAI_API_KEY'' \<mapsto> ''sk-2'', ''HF_API_TOKEN'' \<mapsto> ''hf_1'',
        ''HF_ENDPOINT_URL'' \<mapsto> ''http://h'', ''AZURE_OPENAI_ENDPOINT'' \<mapsto> '''']"
  let ?a = "\<lparr>api_key = Some ''sk-2'', base_url = Some ''https://api.openai.com/v1'',
            organization = None, project = None\<rparr>"
  let ?b = "\<lparr>api_key = Some ''hf_1'', base_url = Some ''http://h''\<rparr>"
  let ?c = "\<lparr>api_key = Some ''ollama'', base_url = None\<rparr>"
  let ?d = "\<lparr>api_key = None, base_url = Some '''', api_version = None, azure_deployment = None\<rparr>"
  have a: "OpenAIClient_init ?env (Some '''') None None None = Inr ?a"
    by (simp add: OpenAIClient_init_def Let_def py_or_def truthy_def getenv_def)
  have b: "HuggingFaceClient_init ?env (Some '''') None = Inr ?b"
    by (simp add: HuggingFaceClient_init_def Let_def py_or_def truthy_def getenv_def)
  have c: "OllamaClient_init ?env (Some '''') None = Inr ?c"
    by (simp add: OllamaClient_init_def Let_def py_or_def truthy_def getenv_def)
  have d: "AzureOpenAIClient_init ?env (Some '''') None None None = Inr ?d"
    by (simp add: AzureOpenAIClient_init_def Let_def py_or_def truthy_def getenv_def)
  show ?thesis
    using a b c d
      empty_argument_as_omitted [where env = ?env and k = "Some ''''" and u = None
        and org = None and proj = None and ver = None and dep = None
        and a = ?a and b = ?b and c = ?c and d = ?d]
    by (simp add: truthy_def)
qed


section \<open>The registry and the dispatch\<close>

text \<open>
  Claim C1. When the lowercased name is not a key of \<^verbatim>\<open>_clients\<close>,
  \<^verbatim>\<open>create_client\<close> raises the \<^verbatim>\<open>ValueError\<close> whose message echoes the name and
  lists the keys of the dictionary as it is at the call, joined by a comma and a space;
  the keys are exactly the names a lookup finds. The state is returned as it was, so no
  class has been instantiated. This holds for every name and every lowercasing function.
\<close>

theorem create_client_unknown:
  assumes "lower client_name \<notin> set (keys (clients s))"
  shows "create_client lower lib env client_name api_key' base_url' s =
           (Inl (ValueError (''Unknown client name: '' @ client_name @ ''. Valid options are ''
                   @ join '', '' (keys (clients s)) @ ''.'')), s)
         \<and> set (keys (clients s)) = {n. dict_get (clients s) n \<noteq> None}"
proof -
  have "dict_get (clients s) (lower client_name) = None"
    using assms by (simp only: dict_get_None_iff not_False_eq_True)
  then have "create_client lower lib env client_name api_key' base_url' s =
      (Inl (ValueError (unknown_message client_name (keys (clients s)))), s)"
    by (rule create_client_absent)
  then show ?thesis
    unfolding unknown_message_def using registered_names [of "clients s"] by blast
qed

theorem create_client_unknown_witness:
  "create_client ascii_lower stub_library Map.empty ''Gemini'' None None initial =
     (Inl (ValueError
        ''Unknown client name: Gemini. Valid options are openai, azure, ollama, huggingface.''),
      initial)
   \<and> create_client ascii_lower stub_library Map.empty ''Gemini'' None None
        (snd (register_client ascii_lower ''Mistral'' MockClient initial)) =
     (Inl (ValueError
        ''Unknown client name: Gemini. Valid options are openai, azure, ollama, huggingface, mistral.''),
      snd (register_client ascii_lower ''Mistral'' MockClient initial))"
proof -
  let ?s = "snd (register_client ascii_lower ''Mistral'' MockClient initial)"
  have ks: "keys (clients ?s) = [''openai'', ''azure'', ''ollama'', ''huggingface'', ''mistral'']"
    by (simp add: clients_register_client lower_examples initial_def keys_def)
  have n1: "ascii_lower ''Gemini'' \<notin> set (keys (clients (initial :: string ClientFactory)))"
    unfolding lower_examples keys_initial by simp
  have n2: "ascii_lower ''Gemini'' \<notin> set (keys (clients ?s))"
    unfolding lower_examples ks by simp
  show ?thesis
    using create_client_unknown [where lower = ascii_lower and client_name = "''Gemini''"
          and lib = stub_library and env = Map.empty and api_key' = None and base_url' = None,
          OF n1]
      create_client_unknown [where lower = ascii_lower and client_name = "''Gemini''"
          and lib = stub_library and env = Map.empty and api_key' = None and base_url' = None,
          OF n2]
    unfolding ks keys_initial join_examples by simp
qed

text \<open>
  Claim C6, as stated, fails: for an unregistered name the two calls raise errors with
  different messages, since the message echoes the name as the caller wrote it.
\<close>

theorem create_client_lower_counterexample:
  "create_client ascii_lower stub_library Map.empty ''Gemini'' None None initial \<noteq>
   create_client ascii_lower stub_library Map.empty (ascii_lower ''Gemini'') None None initial"
proof -
  have a: "create_client ascii_lower stub_library Map.empty ''Gemini'' None None initial =
      (Inl (ValueError (unknown_message ''Gemini''
         (keys (clients (initial :: string ClientFactory))))), initial)"
    by (rule create_client_absent [where lower = ascii_lower])
      (simp only: lower_examples dict_get_initial)
  have b: "create_client ascii_lower stub_library Map.empty (ascii_lower ''Gemini'') None None
        initial =
      (Inl (ValueError (unknown_message ''gemini''
         (keys (clients (initial :: string ClientFactory))))), initial)"
    unfolding lower_examples
    by (rule create_client_absent [where lower = ascii_lower])
      (simp only: lower_examples dict_get_initial)
  show ?thesis
    unfolding a b by (simp add: unknown_message_def)
qed

text \<open>
  Claim C6, amended. The lookup uses the lowercased name only. For every name whose
  lowercased form is left unchanged by lowercasing it again, and every registry state,
  \<^verbatim>\<open>create_client(name, c, e)\<close> and \<^verbatim>\<open>create_client(lower(name), c, e)\<close> find the
  same entry: either both instantiate the same class with the same arguments and give the
  same result, or both raise the unknown-name error over the same list of registered
  names, each echoing the name as it was passed. \<^verbatim>\<open>register_client(name, T)\<close> and
  \<^verbatim>\<open>register_client(lower(name), T)\<close> give the same state.
\<close>

theorem create_client_lower:
  assumes "lower (lower client_name) = lower client_name"
    and "lower (lower name) = lower name"
  shows "(case dict_get (clients s) (lower client_name) of
      Some T \<Rightarrow>
        if class_truthy T then
          create_client lower lib env client_name k u s =
            instantiate_and_create lib env T k u s
          \<and> create_client lower lib env (lower client_name) k u s =
            instantiate_and_create lib env T k u s
        else
          create_client lower lib env client_name k u s =
            (Inl (ValueError (unknown_message client_name (keys (clients s)))), s)
          \<and> create_client lower lib env (lower client_name) k u s =
            (Inl (ValueError (unknown_message (lower client_name) (keys (clients s)))), s)
    | None \<Rightarrow>
        create_client lower lib env client_name k u s =
          (Inl (ValueError (unknown_message client_name (keys (clients s)))), s)
        \<and> create_client lower lib env (lower client_name) k u s =
          (Inl (ValueError (unknown_message (lower client_name) (keys (clients s)))), s))
   \<and> register_client lower name T' s = register_client lower (lower name) T' s"
proof -
  have reg: "register_client lower name T' s = register_client lower (lower name) T' s"
    by (simp add: register_client_def assms(2))
  show ?thesis
  proof (cases "dict_get (clients s) (lower client_name)")
    case None
    then have "dict_get (clients s) (lower (lower client_name)) = None"
      by (simp only: assms(1))
    with None reg show ?thesis
      by (simp add: create_client_absent)
  next
    case (Some T)
    then have again: "dict_get (clients s) (lower (lower client_name)) = Some T"
      by (simp only: assms(1))
    show ?thesis
    proof (cases "class_truthy T")
      case True
      with Some again reg show ?thesis
        by (simp add: create_client_present)
    next
      case False
      with Some again reg show ?thesis
        by (simp add: create_client_falsy)
    qed
  qed
qed

theorem create_client_lower_witness:
  "create_client ascii_lower stub_library Map.empty ''OpenAI'' (Some ''sk-1'') None initial =
     instantiate_and_create stub_library Map.empty OpenAIClient (Some ''sk-1'') None initial
   \<and> create_client ascii_lower stub_library Map.empty ''openai'' (Some ''sk-1'') None initial =
     instantiate_and_create stub_library Map.empty OpenAIClient (Some ''sk-1'') None initial
   \<and> create_client ascii_lower stub_library Map.empty ''Gemini'' None None initial =
     (Inl (ValueError
        ''Unknown client name: Gemini. Valid options are openai, azure, ollama, huggingface.''),
      initial)
   \<and> create_client ascii_lower stub_library Map.empty ''gemini'' None None initial =
     (Inl (ValueError
        ''Unknown client name: gemini. Valid options are openai, azure, ollama, huggingface.''),
      initial)
   \<and> register_client ascii_lower ''OpenAI'' MockClient initial =
     register_client ascii_lower ''openai'' MockClient initial"
proof -
  have i1: "ascii_lower (ascii_lower ''OpenAI'') = ascii_lower ''OpenAI''"
    and i2: "ascii_lower (ascii_lower ''Gemini'') = ascii_lower ''Gemini''"
    by (rule ascii_lower_idem)+
  have t: "class_truthy (OpenAIClient :: string client_class)"
    by simp
  show ?thesis
    using create_client_lower [where lower = ascii_lower and client_name = "''OpenAI''"
        and name = "''OpenAI''" and s = initial and lib = stub_library
        and env = Map.empty and k = "Some ''sk-1''" and u = None and T' = MockClient, OF i1 i1]
      create_client_lower [where lower = ascii_lower and client_name = "''Gemini''"
        and name = "''OpenAI''" and s = initial and lib = stub_library
        and env = Map.empty and k = None and u = None and T' = MockClient, OF i2 i1]
    unfolding lower_examples dict_get_initial keys_initial unknown_message_def join_examples
    using t by simp
qed




text \<open>
  Claim C9. \<^verbatim>\<open>create_client\<close> leaves the dictionary \<^verbatim>\<open>_clients\<close> as it was,
  whether it returns a handle or raises.
\<close>

theorem create_client_frame:
  "clients (snd (create_client lower lib env client_name api_key' base_url' s)) = clients s"
  by (rule clients_create_client)

theorem create_client_frame_witness:
  "clients (snd (create_client ascii_lower stub_library Map.empty ''ollama'' None None initial)) =
     [(''openai'', OpenAIClient), (''azure'', AzureOpenAIClient),
      (''ollama'', OllamaClient), (''huggingface'', HuggingFaceClient)]
   \<and> clients (snd (create_client ascii_lower stub_library Map.empty ''Gemini'' None None initial)) =
     [(''openai'', OpenAIClient), (''azure'', AzureOpenAIClient),
      (''ollama'', OllamaClient), (''huggingface'', HuggingFaceClient)]"
  using create_client_frame [of ascii_lower stub_library Map.empty "''ollama''" None None initial]
    create_client_frame [of ascii_lower stub_library Map.empty "''Gemini''" None None initial]
  by (simp add: initial_def)

end
